theory Spec2Isabelle
  imports Complex_Main "HOL-Library.Code_Target_Nat"
begin

section \<open>The mode watchdog (the shell script)\<close>

text \<open>
  The script keeps one JSON record in \<^verbatim>\<open>STATE_FILE\<close> and edits the telegram channel
  fields of \<^verbatim>\<open>OPENCLAW_CONFIG\<close>. One run of \<^verbatim>\<open>main\<close> is modelled as a function from the
  files before the run to the files after it, together with the list of effects the run
  performed, in order.

  What the model covers: runs in which \<^verbatim>\<open>jq\<close>, \<^verbatim>\<open>echo\<close> and \<^verbatim>\<open>mv\<close> succeed (so
  \<^verbatim>\<open>set -e\<close> never stops the script), a state file that is either absent or holds a
  record with a string \<^verbatim>\<open>mode\<close> and an integer \<^verbatim>\<open>failureCount\<close>, and \<^verbatim>\<open>jq\<close> reading and
  printing such integers digit for digit. The date stamp of a log line is left out.
\<close>

subsection \<open>Data\<close>

record wstate =
  mode :: string
  failureCount :: int
  lastCheck :: real
  lastSwitch :: real

text \<open>The three fields of \<^verbatim>\<open>.channels.telegram\<close> the script writes; \<open>None\<close> is JSON \<^verbatim>\<open>null\<close>.\<close>

record tg_config =
  webhookUrl :: "string option"
  webhookSecret :: "string option"
  webhookPath :: "string option"

datatype path = STATE_FILE | LOG_FILE | OPENCLAW_CONFIG | OPENCLAW_CONFIG_tmp

datatype log_line =
    Health bool bool bool bool string int
  | SWITCHING_TO_LONG_POLLING_MODE
  | Switched_to_long_polling_mode
  | SWITCHING_TO_WEBHOOK_MODE
  | Switched_to_webhook_mode
  | Critical_down_switching int
  | Warning_critical_down int
  | Services_recovered_reset
  | All_recovered_switching int
  | Services_recovering int

text \<open>
  \<open>Redirect p\<close> is a shell redirection \<^verbatim>\<open>> p\<close>, which truncates \<open>p\<close> and writes it in
  place; \<open>Append\<close> is \<^verbatim>\<open>>> LOG_FILE\<close>; \<open>Mv a b\<close> is \<^verbatim>\<open>mv a b\<close>; \<open>Post_restart\<close> is the
  \<^verbatim>\<open>curl -X POST .../api/gateway/restart\<close> call, whose failure is ignored (\<^verbatim>\<open>|| true\<close>).
\<close>

datatype effect = Redirect path | Append log_line | Mv path path | Post_restart

record world =
  state_file :: "wstate option"
  config :: tg_config
  config_tmp :: "tg_config option"
  trace :: "effect list"

text \<open>The four health probes of one run, and the value \<^verbatim>\<open>jq\<close>'s \<^verbatim>\<open>now\<close> has in it.\<close>

record env =
  nginx_ok :: bool
  cf_ok :: bool
  openclaw_ok :: bool
  kcc_ok :: bool
  now :: real

definition FAILURE_THRESHOLD :: int where
  "FAILURE_THRESHOLD = 2"

text \<open>
  Shell arithmetic (\<^verbatim>\<open>$((...))\<close>, and \<^verbatim>\<open>-gt\<close>, \<^verbatim>\<open>-ge\<close> inside \<^verbatim>\<open>[[ ]]\<close>) is signed 64-bit and
  wraps silently, also when it reads a decimal numeral that is too large.
\<close>

definition bash_int :: "int \<Rightarrow> int" where
  "bash_int n = (n + 2 ^ 63) mod 2 ^ 64 - 2 ^ 63"

subsection \<open>The functions of the script\<close>

text \<open>\<^verbatim>\<open>log\<close>, renamed since \<open>log\<close> is the logarithm.\<close>

definition log_sh :: "log_line \<Rightarrow> world \<Rightarrow> world" where
  "log_sh l w = w\<lparr>trace := trace w @ [Append l]\<rparr>"

definition init_state :: "world \<Rightarrow> world" where
  "init_state w =
     (if state_file w = None
      then w\<lparr>state_file := Some \<lparr>mode = ''webhook'', failureCount = 0, lastCheck = 0, lastSwitch = 0\<rparr>,
              trace := trace w @ [Redirect STATE_FILE]\<rparr>
      else w)"

definition read_state :: "world \<Rightarrow> wstate option" where
  "read_state w = state_file w"

definition update_state :: "wstate \<Rightarrow> world \<Rightarrow> world" where
  "update_state s w = w\<lparr>state_file := Some s, trace := trace w @ [Redirect STATE_FILE]\<rparr>"

text \<open>\<^verbatim>\<open>jq '...' "$OPENCLAW_CONFIG" > "$OPENCLAW_CONFIG.tmp" && mv "$OPENCLAW_CONFIG.tmp" "$OPENCLAW_CONFIG"\<close>\<close>

definition rewrite_config :: "(tg_config \<Rightarrow> tg_config) \<Rightarrow> world \<Rightarrow> world" where
  "rewrite_config f w =
     (let w1 = w\<lparr>config_tmp := Some (f (config w)), trace := trace w @ [Redirect OPENCLAW_CONFIG_tmp]\<rparr>
      in w1\<lparr>config := f (config w), config_tmp := None,
             trace := trace w1 @ [Mv OPENCLAW_CONFIG_tmp OPENCLAW_CONFIG]\<rparr>)"

definition restart_gateway :: "world \<Rightarrow> world" where
  "restart_gateway w = w\<lparr>trace := trace w @ [Post_restart]\<rparr>"

definition switch_to_polling :: "env \<Rightarrow> world \<Rightarrow> world" where
  "switch_to_polling e w =
     (let w1 = log_sh SWITCHING_TO_LONG_POLLING_MODE w;
          w2 = rewrite_config (\<lambda>c. c\<lparr>webhookUrl := None, webhookSecret := None, webhookPath := None\<rparr>) w1;
          w3 = restart_gateway w2
      in case read_state w3 of
           None \<Rightarrow> w3
         | Some state \<Rightarrow>
             log_sh Switched_to_long_polling_mode
               (update_state (state\<lparr>mode := ''polling'', lastSwitch := now e, failureCount := 0\<rparr>) w3))"

definition switch_to_webhook :: "env \<Rightarrow> world \<Rightarrow> world" where
  "switch_to_webhook e w =
     (let w1 = log_sh SWITCHING_TO_WEBHOOK_MODE w;
          w2 = rewrite_config (\<lambda>c. c\<lparr>
                 webhookUrl := Some ''https://office.itskcc.com/api/telegram/webhook'',
                 webhookSecret := Some ''834e9a76b21c50196ae3530e9fe73c79edb880a1b9dd412ca94e612c711ba6f0'',
                 webhookPath := Some ''/api/telegram/webhook''\<rparr>) w1;
          w3 = restart_gateway w2
      in case read_state w3 of
           None \<Rightarrow> w3
         | Some state \<Rightarrow>
             log_sh Switched_to_webhook_mode
               (update_state (state\<lparr>mode := ''webhook'', lastSwitch := now e, failureCount := 0\<rparr>) w3))"

text \<open>
  \<^verbatim>\<open>main\<close>. The variable \<^verbatim>\<open>failure_count\<close> first holds the text \<^verbatim>\<open>jq -r\<close> printed; the
  shell reads it as a number (\<open>bash_int\<close>) wherever it computes or compares with it. The
  \<open>None\<close> branch is never taken, since \<open>init_state\<close> has just created the file.
\<close>

definition main :: "env \<Rightarrow> world \<Rightarrow> world" where
  "main e w =
     (let w0 = init_state w in
      case read_state w0 of
        None \<Rightarrow> w0
      | Some state \<Rightarrow>
         (let current_mode = mode state;
              failure_count = failureCount state;
              w1 = log_sh (Health (nginx_ok e) (cf_ok e) (openclaw_ok e) (kcc_ok e) current_mode failure_count) w0
          in
          if current_mode = ''webhook'' then
            (if \<not> nginx_ok e \<or> \<not> cf_ok e then
               (let failure_count = bash_int (bash_int failure_count + 1);
                    state = state\<lparr>failureCount := failure_count\<rparr>;
                    w2 = update_state state w1
                in if failure_count \<ge> FAILURE_THRESHOLD
                   then switch_to_polling e (log_sh (Critical_down_switching failure_count) w2)
                   else log_sh (Warning_critical_down failure_count) w2)
             else
               (if bash_int failure_count > 0
                then log_sh Services_recovered_reset (update_state (state\<lparr>failureCount := 0\<rparr>) w1)
                else w1))
          else
            (if nginx_ok e \<and> cf_ok e \<and> openclaw_ok e then
               (let failure_count = bash_int (bash_int failure_count + 1);
                    state = state\<lparr>failureCount := failure_count\<rparr>;
                    w2 = update_state state w1
                in if failure_count \<ge> FAILURE_THRESHOLD
                   then switch_to_webhook e (log_sh (All_recovered_switching failure_count) w2)
                   else log_sh (Services_recovering failure_count) w2)
             else
               (if bash_int failure_count > 0
                then update_state (state\<lparr>failureCount := 0\<rparr>) w1
                else w1))))"


section \<open>The notifier plugin (index.ts)\<close>

subsection \<open>JavaScript values\<close>

text \<open>
  A JavaScript string is a sequence of UTF-16 code units; \<^verbatim>\<open>slice\<close>, \<^verbatim>\<open>includes\<close> and the
  regular expressions of the plugin (none has the \<^verbatim>\<open>u\<close> flag) all work on code units. A
  code unit is a \<open>nat\<close> here, and \<open>lit\<close> turns an ASCII literal of the source into code units.
\<close>

type_synonym jsstring = "nat list"

definition lit :: "string \<Rightarrow> jsstring" where
  "lit s = map of_char s"

text \<open>
  The values an event or a request body is made of. Numbers are the integer-valued ones
  (no fractions, \<^verbatim>\<open>NaN\<close> or infinities); objects are plain records of own properties, as
  \<^verbatim>\<open>JSON.parse\<close> builds them (no arrays, no functions). Property names are kept as
  Isabelle strings: the plugin only looks up the ASCII names written in its source.
\<close>

datatype jsval =
    JUndefined
  | JNull
  | JBool bool
  | JNum int
  | JStr jsstring
  | JObj "(string \<times> jsval) list"

datatype js_error = TypeError | SyntaxError

text \<open>\<^verbatim>\<open>v?.k\<close>: \<^verbatim>\<open>undefined\<close> on \<^verbatim>\<open>undefined\<close> and \<^verbatim>\<open>null\<close>; a primitive has none of the names used.\<close>

fun get_prop :: "jsval \<Rightarrow> string \<Rightarrow> jsval" where
  "get_prop (JObj fs) k = (case map_of fs k of Some v \<Rightarrow> v | None \<Rightarrow> JUndefined)"
| "get_prop _ k = JUndefined"

fun truthy :: "jsval \<Rightarrow> bool" where
  "truthy JUndefined = False"
| "truthy JNull = False"
| "truthy (JBool b) = b"
| "truthy (JNum n) = (n \<noteq> 0)"
| "truthy (JStr s) = (s \<noteq> [])"
| "truthy (JObj fs) = True"

text \<open>\<^verbatim>\<open>a || b\<close>\<close>

definition js_or :: "jsval \<Rightarrow> jsval \<Rightarrow> jsval" where
  "js_or a b = (if truthy a then a else b)"

fun dec :: "nat \<Rightarrow> jsstring" where
  "dec n = (if n < 10 then [48 + n] else dec (n div 10) @ [48 + n mod 10])"

text \<open>
  The text of a number, in \<^verbatim>\<open>String(n)\<close> and in the \<^verbatim>\<open>${n}\<close> of a template: decimal, as
  JavaScript prints an integer below \<^verbatim>\<open>1e21\<close> in absolute value.
\<close>

definition num_text :: "int \<Rightarrow> jsstring" where
  "num_text n = (if n < 0 then lit ''-'' @ dec (nat (- n)) else dec (nat n))"

text \<open>Whether a value is an object with an own property of the given name.\<close>

fun has_own :: "jsval \<Rightarrow> string \<Rightarrow> bool" where
  "has_own (JObj fs) k = (map_of fs k \<noteq> None)"
| "has_own _ k = False"

text \<open>
  \<^verbatim>\<open>String(v)\<close>, and the conversion \<^verbatim>\<open>RegExp.prototype.test\<close> applies to its argument. On
  an object the conversion calls \<^verbatim>\<open>toString\<close> and then \<^verbatim>\<open>valueOf\<close>. An own property named
  \<^verbatim>\<open>toString\<close> hides \<^verbatim>\<open>Object.prototype.toString\<close>; its value is no function here, so it is
  skipped, \<^verbatim>\<open>valueOf\<close> gives back the object (or is skipped as well), and the conversion
  throws a \<^verbatim>\<open>TypeError\<close>. Without such a property the text is \<^verbatim>\<open>[object Object]\<close>.
\<close>

fun js_String :: "jsval \<Rightarrow> js_error + jsstring" where
  "js_String JUndefined = Inr (lit ''undefined'')"
| "js_String JNull = Inr (lit ''null'')"
| "js_String (JBool b) = Inr (if b then lit ''true'' else lit ''false'')"
| "js_String (JNum n) = Inr (num_text n)"
| "js_String (JStr s) = Inr s"
| "js_String (JObj fs) =
     (if has_own (JObj fs) ''toString'' then Inl TypeError else Inr (lit ''[object Object]''))"

text \<open>\<^verbatim>\<open>s.slice(0, n)\<close>\<close>

definition slice0 :: "jsstring \<Rightarrow> nat \<Rightarrow> jsstring" where
  "slice0 s n = take n s"

text \<open>\<^verbatim>\<open>s.includes(sub)\<close>\<close>

definition js_includes :: "jsstring \<Rightarrow> jsstring \<Rightarrow> bool" where
  "js_includes s sub = list_ex (\<lambda>i. take (length sub) (drop i s) = sub) [0 ..< Suc (length s)]"

text \<open>White space and line terminators: what \<^verbatim>\<open>\s\<close> matches and \<^verbatim>\<open>trim\<close> removes.\<close>

definition is_space :: "nat \<Rightarrow> bool" where
  "is_space c = (c \<in> {9, 10, 11, 12, 13, 32, 160, 5760, 8232, 8233, 8239, 8287, 12288, 65279}
                 \<or> (8192 \<le> c \<and> c \<le> 8202))"

definition is_digit :: "nat \<Rightarrow> bool" where
  "is_digit c = (48 \<le> c \<and> c \<le> 57)"

text \<open>What \<^verbatim>\<open>.\<close> matches: anything but a line terminator.\<close>

definition is_dot :: "nat \<Rightarrow> bool" where
  "is_dot c = (c \<notin> {10, 13, 8232, 8233})"

definition trim :: "jsstring \<Rightarrow> jsstring" where
  "trim s = rev (dropWhile is_space (rev (dropWhile is_space s)))"

text \<open>
  \<^verbatim>\<open>toLowerCase\<close> on the code units below 256 (ASCII and Latin-1). Code units above are
  left as they are: the Unicode case tables are not modelled.
\<close>

definition lower_unit :: "nat \<Rightarrow> nat" where
  "lower_unit c = (if (65 \<le> c \<and> c \<le> 90) \<or> (192 \<le> c \<and> c \<le> 222 \<and> c \<noteq> 215) then c + 32 else c)"

definition toLowerCase :: "jsstring \<Rightarrow> jsstring" where
  "toLowerCase s = map lower_unit s"

text \<open>\<^verbatim>\<open>parseInt(ds, 10)\<close> on a string of decimal digits.\<close>

definition parseInt :: "jsstring \<Rightarrow> int" where
  "parseInt ds = foldl (\<lambda>a d. 10 * a + int (d - 48)) 0 ds"

subsection \<open>Regular expressions\<close>

text \<open>
  The patterns of the plugin use character classes, sequence, alternation, greedy \<^verbatim>\<open>*\<close> and
  \<^verbatim>\<open>+\<close>, and the anchors \<^verbatim>\<open>^\<close> and \<^verbatim>\<open>$\<close> (no \<^verbatim>\<open>m\<close> flag: start and end of the input).
  A matcher state is the position reached and the input left. \<open>rx_run r st\<close> lists the
  states in which \<open>r\<close> can end when started in \<open>st\<close>, in the order a backtracking matcher
  tries them.
\<close>

datatype rx =
    Sym "nat \<Rightarrow> bool"
  | Cat rx rx
  | Or rx rx
  | Many rx
  | Empty
  | Bol
  | Eol

type_synonym rx_state = "nat \<times> jsstring"

text \<open>
  Greedy repetition: one more round first, then stopping here. A round that consumes
  nothing is dropped, as the language does; so \<open>k\<close> rounds suffice on \<open>k\<close> code units.
\<close>

fun rounds :: "nat \<Rightarrow> (rx_state \<Rightarrow> rx_state list) \<Rightarrow> rx_state \<Rightarrow> rx_state list" where
  "rounds 0 f st = [st]"
| "rounds (Suc k) f st =
     concat (map (rounds k f) (filter (\<lambda>st'. fst st < fst st') (f st))) @ [st]"

fun rx_run :: "rx \<Rightarrow> rx_state \<Rightarrow> rx_state list" where
  "rx_run (Sym p) (i, s) = (case s of [] \<Rightarrow> [] | c # cs \<Rightarrow> if p c then [(Suc i, cs)] else [])"
| "rx_run (Cat a b) st = concat (map (rx_run b) (rx_run a st))"
| "rx_run (Or a b) st = rx_run a st @ rx_run b st"
| "rx_run (Many r) st = rounds (length (snd st)) (rx_run r) st"
| "rx_run Empty st = [st]"
| "rx_run Bol (i, s) = (if i = 0 then [(i, s)] else [])"
| "rx_run Eol (i, s) = (if s = [] then [(i, s)] else [])"

text \<open>\<^verbatim>\<open>r.test(s)\<close>: a match may start at any position.\<close>

definition rx_test :: "rx \<Rightarrow> jsstring \<Rightarrow> bool" where
  "rx_test r s = list_ex (\<lambda>i. rx_run r (i, drop i s) \<noteq> []) [0 ..< Suc (length s)]"

text \<open>
  \<^verbatim>\<open>s.match(r)\<close> for a pattern of the shape \<^verbatim>\<open>pre(grp)\<close>: the text of the group in the
  first match, taken at the leftmost position that has one.
\<close>

definition group_at :: "rx \<Rightarrow> rx \<Rightarrow> rx_state \<Rightarrow> jsstring list" where
  "group_at pre grp st =
     concat (map (\<lambda>(j, r). map (\<lambda>(j', r'). take (j' - j) r) (rx_run grp (j, r))) (rx_run pre st))"

definition rx_match_group :: "rx \<Rightarrow> rx \<Rightarrow> jsstring \<Rightarrow> jsstring option" where
  "rx_match_group pre grp s =
     (case concat (map (\<lambda>i. take 1 (group_at pre grp (i, drop i s))) [0 ..< Suc (length s)]) of
        [] \<Rightarrow> None
      | g # _ \<Rightarrow> Some g)"

text \<open>Building blocks: \<^verbatim>\<open>r+\<close>, a literal, a literal under the \<^verbatim>\<open>i\<close> flag.\<close>

definition Some1 :: "rx \<Rightarrow> rx" where
  "Some1 r = Cat r (Many r)"

definition word :: "string \<Rightarrow> rx" where
  "word s = foldr (\<lambda>c r. Cat (Sym (\<lambda>x. x = c)) r) (lit s) Empty"

text \<open>
  Under \<^verbatim>\<open>i\<close> (without \<^verbatim>\<open>u\<close>) a code unit below 128 only matches itself in the other
  case: no code unit from 128 on is folded onto an ASCII one.
\<close>

definition fold_case :: "nat \<Rightarrow> nat" where
  "fold_case c = (if 97 \<le> c \<and> c \<le> 122 then c - 32 else c)"

definition word_i :: "string \<Rightarrow> rx" where
  "word_i s = foldr (\<lambda>c r. Cat (Sym (\<lambda>x. fold_case x = fold_case c)) r) (lit s) Empty"


subsection \<open>The exec failure filter\<close>

definition BOSS_SENDER_IDS :: "jsstring list" where
  "BOSS_SENDER_IDS = [lit ''167090545'']"

definition BENIGN_EXIT1_COMMANDS :: "string list" where
  "BENIGN_EXIT1_COMMANDS = [''cat'', ''grep'', ''ls'', ''egrep'', ''fgrep'', ''diff'', ''test'']"

text \<open>\<^verbatim>\<open>/no matches found/i\<close> and \<^verbatim>\<open>/zsh:.*no matches/i\<close>\<close>

definition BENIGN_STDERR_PATTERNS :: "rx list" where
  "BENIGN_STDERR_PATTERNS =
     [word_i ''no matches found'',
      Cat (word_i ''zsh:'') (Cat (Many (Sym is_dot)) (word_i ''no matches''))]"

text \<open>
  The four patterns built for one command of the list: \<^verbatim>\<open>^cmd(\s|$)\<close>,
  \<^verbatim>\<open>\|\s*cmd(\s|$)\<close>, \<^verbatim>\<open>&&\s*cmd(\s|$)\<close> and \<^verbatim>\<open>;\s*cmd(\s|$)\<close>.
\<close>

definition space_or_end :: rx where
  "space_or_end = Or (Sym is_space) Eol"

definition benign_patterns :: "string \<Rightarrow> rx list" where
  "benign_patterns cmd =
     [Cat Bol (Cat (word cmd) space_or_end),
      Cat (word ''|'') (Cat (Many (Sym is_space)) (Cat (word cmd) space_or_end)),
      Cat (word ''&&'') (Cat (Many (Sym is_space)) (Cat (word cmd) space_or_end)),
      Cat (word '';'') (Cat (Many (Sym is_space)) (Cat (word cmd) space_or_end))]"

text \<open>
  \<^verbatim>\<open>isHarmlessExecFailure(command, exitCode, stderr?)\<close>. An absent \<^verbatim>\<open>stderr\<close> is \<open>None\<close>;
  \<^verbatim>\<open>if (stderr)\<close> lets a non-empty string through.
\<close>

definition isHarmlessExecFailure :: "jsstring \<Rightarrow> int \<Rightarrow> jsstring option \<Rightarrow> bool" where
  "isHarmlessExecFailure command exitCode stderr =
     (if js_includes command (lit ''2>/dev/null'') \<or> js_includes command (lit ''2>/dev/null'')
      then True
      else if exitCode = 1 \<and>
              list_ex (\<lambda>cmd. list_ex (\<lambda>p. rx_test p (trim command)) (benign_patterns cmd))
                BENIGN_EXIT1_COMMANDS
      then True
      else if (case stderr of
                 None \<Rightarrow> False
               | Some err \<Rightarrow> err \<noteq> [] \<and> list_ex (\<lambda>p. rx_test p err) BENIGN_STDERR_PATTERNS)
      then True
      else False)"

text \<open>
  The three tests of \<^verbatim>\<open>isExecErrorMsg\<close>: \<^verbatim>\<open>/command exited with code \d+/i\<close>,
  \<^verbatim>\<open>/exited with code \d+/i\<close> and \<^verbatim>\<open>/exit code[:\s]+\d+/i\<close>.
\<close>

definition colon_or_space :: "nat \<Rightarrow> bool" where
  "colon_or_space c = (c = 58 \<or> is_space c)"

definition isExecErrorMsg :: "jsstring \<Rightarrow> bool" where
  "isExecErrorMsg content =
     (rx_test (Cat (word_i ''command exited with code '') (Some1 (Sym is_digit))) content
      \<or> rx_test (Cat (word_i ''exited with code '') (Some1 (Sym is_digit))) content
      \<or> rx_test (Cat (word_i ''exit code'') (Cat (Some1 (Sym colon_or_space)) (Some1 (Sym is_digit)))) content)"

text \<open>\<^verbatim>\<open>content.match(/code[:\s]+(\d+)/i)\<close>, then \<^verbatim>\<open>parseInt\<close> of the group, or 0.\<close>

definition codeMatch :: "jsstring \<Rightarrow> jsstring option" where
  "codeMatch content =
     rx_match_group (Cat (word_i ''code'') (Some1 (Sym colon_or_space))) (Some1 (Sym is_digit)) content"

definition extracted_exitCode :: "jsstring \<Rightarrow> int" where
  "extracted_exitCode content = (case codeMatch content of Some ds \<Rightarrow> parseInt ds | None \<Rightarrow> 0)"

definition isHarmlessExecMessage :: "jsstring \<Rightarrow> bool" where
  "isHarmlessExecMessage content =
     (let lower = toLowerCase content in
      if \<not> isExecErrorMsg content then False
      else if extracted_exitCode content > 1 then False
      else if list_ex (\<lambda>cmd. js_includes lower (lit cmd)) BENIGN_EXIT1_COMMANDS then True
      else if js_includes lower (lit ''2>/dev/null'') then True
      else if rx_test (word_i ''no matches found'') content then True
      else False)"


subsection \<open>Outbound calls and the host\<close>

text \<open>
  \<^verbatim>\<open>postJson(url, body, timeoutMs)\<close> sends one HTTP POST. The call is recorded with the
  object passed as \<^verbatim>\<open>body\<close> (a property whose value is \<^verbatim>\<open>undefined\<close> is kept here;
  \<^verbatim>\<open>JSON.stringify\<close> drops it on the wire). Its result is \<^verbatim>\<open>response.ok\<close>, or \<^verbatim>\<open>false\<close> when
  \<^verbatim>\<open>fetch\<close> throws or the timeout aborts it: that is the host's \<open>fetch_ok\<close>. The hooks
  discard the result (\<^verbatim>\<open>void postJson(...)\<close>). Console output is not modelled, except that \<^verbatim>\<open>content.slice\<close> inside a log line throws
  on a value that has no such method.
\<close>

record call =
  url :: string
  payload :: "(string \<times> jsval) list"
  timeout_ms :: int

record host =
  js_Number :: "jsval \<Rightarrow> jsval"
  fetch_ok :: "call \<Rightarrow> bool"

definition postJson :: "string \<Rightarrow> (string \<times> jsval) list \<Rightarrow> int \<Rightarrow> call" where
  "postJson u b t = \<lparr>url = u, payload = b, timeout_ms = t\<rparr>"

definition DEFAULT_WORKFLOW_ENDPOINT :: string where
  "DEFAULT_WORKFLOW_ENDPOINT = ''http://localhost:4200/api/workflow''"

definition DEFAULT_MESSAGES_ENDPOINT :: string where
  "DEFAULT_MESSAGES_ENDPOINT = ''http://localhost:4200/api/messages''"

definition DEFAULT_TIMEOUT_MS :: int where
  "DEFAULT_TIMEOUT_MS = 2000"

record api_config =
  cfg_endpoint :: "string option"
  cfg_messagesEndpoint :: "string option"
  cfg_enabled :: "bool option"
  cfg_timeoutMs :: "int option"

record settings =
  workflowEndpoint :: string
  messagesEndpoint :: string
  timeoutMs :: int

text \<open>
  The head of \<^verbatim>\<open>kccNotifyPlugin\<close>: the settings the handlers close over, or \<open>None\<close> when
  the plugin is disabled and registers nothing.
\<close>

definition kccNotifyPlugin :: "api_config \<Rightarrow> settings option" where
  "kccNotifyPlugin conf =
     (if cfg_enabled conf = Some False then None
      else Some \<lparr>
        workflowEndpoint =
          (case cfg_endpoint conf of
             Some u \<Rightarrow> if u \<noteq> [] then u else DEFAULT_WORKFLOW_ENDPOINT
           | None \<Rightarrow> DEFAULT_WORKFLOW_ENDPOINT),
        messagesEndpoint =
          (case cfg_messagesEndpoint conf of
             Some u \<Rightarrow> if u \<noteq> [] then u else DEFAULT_MESSAGES_ENDPOINT
           | None \<Rightarrow> DEFAULT_MESSAGES_ENDPOINT),
        timeoutMs =
          (case cfg_timeoutMs conf of
             Some t \<Rightarrow> if t \<noteq> 0 then t else DEFAULT_TIMEOUT_MS
           | None \<Rightarrow> DEFAULT_TIMEOUT_MS)\<rparr>)"

text \<open>\<^verbatim>\<open>typeof content === 'string' ? content.slice(0, 200) : dflt\<close>\<close>

definition slice200_or :: "jsval \<Rightarrow> jsstring \<Rightarrow> jsval" where
  "slice200_or content dflt = (case content of JStr s \<Rightarrow> JStr (slice0 s 200) | _ \<Rightarrow> JStr dflt)"

text \<open>
  \<^verbatim>\<open>Number(v)\<close>. A number is itself, a boolean is 0 or 1, \<^verbatim>\<open>null\<close> is 0. On an object
  the conversion calls \<^verbatim>\<open>valueOf\<close> and then \<^verbatim>\<open>toString\<close>, and throws a \<^verbatim>\<open>TypeError\<close> exactly
  when \<open>js_String\<close> does: when the object has an own property named \<^verbatim>\<open>toString\<close>. The
  value for a string, for \<^verbatim>\<open>undefined\<close> and for any other object (which may be a fraction
  or \<^verbatim>\<open>NaN\<close>, outside \<open>jsval\<close>) is left to the host's \<open>js_Number\<close>.
\<close>

definition to_Number :: "host \<Rightarrow> jsval \<Rightarrow> js_error + jsval" where
  "to_Number h v =
     (case v of
        JNum n \<Rightarrow> Inr (JNum n)
      | JBool b \<Rightarrow> Inr (JNum (if b then 1 else 0))
      | JNull \<Rightarrow> Inr (JNum 0)
      | JObj fs \<Rightarrow> if has_own v ''toString'' then Inl TypeError else Inr (js_Number h v)
      | _ \<Rightarrow> Inr (js_Number h v))"

text \<open>\<^verbatim>\<open>messageId ? Number(messageId) : undefined\<close>\<close>

definition messageId_field :: "host \<Rightarrow> jsval \<Rightarrow> js_error + jsval" where
  "messageId_field h messageId = (if truthy messageId then to_Number h messageId else Inr JUndefined)"

subsection \<open>The hooks\<close>

text \<open>
  The first hook can throw after it has issued a call (the feed call is on its way when
  \<^verbatim>\<open>Number(messageId)\<close> is evaluated for the workflow call), so it returns the calls it
  issued, in order, together with the error it threw, if any. In the other two hooks a
  throw can only happen before the first call: they return the calls or the error.
\<close>

text \<open>The locals \<^verbatim>\<open>senderId\<close>, \<^verbatim>\<open>content\<close> and \<^verbatim>\<open>messageId\<close> of the first hook.\<close>

definition senderId_of :: "jsval \<Rightarrow> jsval" where
  "senderId_of event = js_or (get_prop (get_prop event ''metadata'') ''senderId'') (JStr [])"

definition content_of :: "jsval \<Rightarrow> jsval" where
  "content_of event = js_or (get_prop event ''content'') (JStr [])"

definition messageId_of :: "jsval \<Rightarrow> jsval" where
  "messageId_of event = get_prop (get_prop event ''metadata'') ''messageId''"

definition message_received :: "host \<Rightarrow> settings \<Rightarrow> jsval \<Rightarrow> call list \<times> js_error option" where
  "message_received h cfg event =
     (let senderId = senderId_of event;
          content = content_of event;
          messageId = messageId_of event;
          senderName = js_or (get_prop (get_prop event ''metadata'') ''senderName'') (JStr (lit ''Unknown''))
      in
      case js_String senderId of
        Inl err \<Rightarrow> ([], Some err)
      | Inr sid \<Rightarrow>
         (let isBoss = (sid \<in> set BOSS_SENDER_IDS) in
          case (if isBoss \<and> truthy content then
                  (case content of
                     JStr s \<Rightarrow> Inr [postJson (messagesEndpoint cfg)
                                     [(''message'', content),
                                      (''from'', JStr (lit ''Boss'')),
                                      (''type'', JStr (lit ''received''))]
                                     (timeoutMs cfg)]
                   | _ \<Rightarrow> Inl TypeError)
                else Inr []) of
            Inl err \<Rightarrow> ([], Some err)
          | Inr calls \<Rightarrow>
              if isBoss then
                (case content of
                   JStr s \<Rightarrow>
                     (case messageId_field h messageId of
                        Inl err \<Rightarrow> (calls, Some err)
                      | Inr mid \<Rightarrow>
                          (calls @ [postJson (workflowEndpoint cfg)
                                      [(''action'', JStr (lit ''start_flow'')),
                                       (''content'', slice200_or content []),
                                       (''from'', senderName),
                                       (''agent'', JStr (lit ''wickedman'')),
                                       (''messageId'', mid)]
                                      (timeoutMs cfg)], None))
                 | _ \<Rightarrow> (calls, Some TypeError))
              else (calls, None)))"

text \<open>The local \<^verbatim>\<open>content\<close> of the second hook.\<close>

definition sent_content_of :: "jsval \<Rightarrow> jsval" where
  "sent_content_of event = js_or (js_or (get_prop event ''content'') (get_prop event ''text'')) (JStr [])"

definition message_sent :: "host \<Rightarrow> settings \<Rightarrow> jsval \<Rightarrow> js_error + call list" where
  "message_sent h cfg event =
     (let content = sent_content_of event in
      if \<not> truthy content then Inr []
      else
        case content of
          JStr s \<Rightarrow>
            if isHarmlessExecMessage s then Inr []
            else
              (let recipientId = js_or (js_or (get_prop (get_prop event ''metadata'') ''recipientId'')
                                              (get_prop (get_prop event ''metadata'') ''chatId''))
                                       (JStr [])
               in case js_String recipientId of
                    Inl err \<Rightarrow> Inl err
                  | Inr rid \<Rightarrow>
                      (let isToBoss = (rid \<in> set BOSS_SENDER_IDS) in
                       if isToBoss then
                         Inr [postJson (messagesEndpoint cfg)
                                [(''message'', content),
                                 (''from'', JStr (lit ''WickedMan'')),
                                 (''type'', JStr (lit ''sent''))]
                                (timeoutMs cfg),
                              postJson (workflowEndpoint cfg)
                                [(''action'', JStr (lit ''agent_complete'')),
                                 (''agent'', JStr (lit ''wickedman'')),
                                 (''result'', slice200_or content (lit ''Task completed''))]
                                (timeoutMs cfg)]
                       else Inr []))
        | _ \<Rightarrow> Inl TypeError)"

text \<open>The locals \<^verbatim>\<open>toolName\<close>, \<^verbatim>\<open>result\<close>, \<^verbatim>\<open>status\<close> and \<^verbatim>\<open>exitCode\<close> of the third hook.\<close>

definition toolName_of :: "jsval \<Rightarrow> jsval" where
  "toolName_of event = js_or (js_or (get_prop event ''toolName'') (get_prop event ''name'')) (JStr [])"

definition result_of :: "jsval \<Rightarrow> jsval" where
  "result_of event = js_or (js_or (get_prop event ''result'') (get_prop event ''output'')) (JObj [])"

definition status_of :: "jsval \<Rightarrow> jsval" where
  "status_of event = js_or (get_prop (result_of event) ''status'') (JStr [])"

text \<open>\<^verbatim>\<open>typeof v === 'number'\<close>\<close>

fun is_number :: "jsval \<Rightarrow> bool" where
  "is_number (JNum n) = True"
| "is_number _ = False"

definition exitCode_of :: "jsval \<Rightarrow> int" where
  "exitCode_of event =
     (case get_prop (result_of event) ''exitCode'' of
        JNum n \<Rightarrow> n
      | _ \<Rightarrow> if status_of event = JStr (lit ''error'') then 1 else 0)"

text \<open>The text of the \<^verbatim>\<open>exec_error\<close> message; it starts with U+26A0 U+FE0F.\<close>

definition exec_failure_message :: "int \<Rightarrow> jsstring \<Rightarrow> jsstring" where
  "exec_failure_message exitCode command =
     [9888, 65039] @ lit '' Exec failure (exit '' @ num_text exitCode @ lit ''): ''
       @ slice0 command 150"

text \<open>
  The third hook. \<^verbatim>\<open>stderr\<close> reaches \<^verbatim>\<open>isHarmlessExecFailure\<close> as it is; there it is only
  tested for truth and converted to text by \<^verbatim>\<open>p.test(stderr)\<close>. When that conversion
  throws, it throws at the first pattern, which is reached exactly when the first two
  rules of the function have not returned: when the function is false without \<^verbatim>\<open>stderr\<close>.
\<close>

definition after_tool_call :: "host \<Rightarrow> settings \<Rightarrow> jsval \<Rightarrow> js_error + call list" where
  "after_tool_call h cfg event =
     (let toolName = toolName_of event in
      if toolName \<noteq> JStr (lit ''exec'') then Inr []
      else
        (let result = result_of event;
             status = status_of event;
             exitCode = exitCode_of event
         in
         if exitCode = 0 \<and> status \<noteq> JStr (lit ''error'') then Inr []
         else
           (let command = js_or (js_or (get_prop (get_prop event ''params'') ''command'')
                                      (get_prop (get_prop event ''input'') ''command''))
                                (JStr []);
                stderr = js_or (js_or (get_prop result ''stderr'') (get_prop result ''error'')) (JStr [])
            in
            case command of
              JStr c \<Rightarrow>
                (case js_String stderr of
                   Inr err \<Rightarrow>
                     if isHarmlessExecFailure c exitCode (Some err) then Inr []
                     else Inr [postJson (messagesEndpoint cfg)
                                 [(''message'', JStr (exec_failure_message exitCode c)),
                                  (''from'', JStr (lit ''System'')),
                                  (''type'', JStr (lit ''exec_error''))]
                                 (timeoutMs cfg)]
                 | Inl e \<Rightarrow>
                     if isHarmlessExecFailure c exitCode None then Inr [] else Inl e)
            | _ \<Rightarrow> Inl TypeError)))"

subsection \<open>The manual route POST /kcc-notify\<close>




section \<open>Vocabulary of the properties\<close>

text \<open>The effects of one run of the watchdog: what \<open>main\<close> added to the trace.\<close>

definition run_effects :: "env \<Rightarrow> world \<Rightarrow> effect list" where
  "run_effects e w = drop (length (trace w)) (trace (main e w))"

text \<open>
  The number of mode switches among some effects. Each of \<open>switch_to_polling\<close> and
  \<open>switch_to_webhook\<close> posts exactly one gateway restart, and nothing else does.
\<close>

definition switches :: "effect list \<Rightarrow> nat" where
  "switches tr = length (filter (\<lambda>x. x = Post_restart) tr)"

text \<open>Whether an effect writes, replaces or moves away the file \<open>p\<close>.\<close>

fun touches :: "path \<Rightarrow> effect \<Rightarrow> bool" where
  "touches p (Redirect q) = (p = q)"
| "touches p (Mv a b) = (p = a \<or> p = b)"
| "touches p _ = False"

text \<open>Sample inputs for the concrete instances below.\<close>

definition down_env :: env where
  "down_env = \<lparr>nginx_ok = False, cf_ok = True, openclaw_ok = True, kcc_ok = True, now = 1700000000\<rparr>"

definition up_env :: env where
  "up_env = \<lparr>nginx_ok = True, cf_ok = True, openclaw_ok = True, kcc_ok = True, now = 1700000060\<rparr>"

definition webhook_config :: tg_config where
  "webhook_config =
     \<lparr>webhookUrl = Some ''https://office.itskcc.com/api/telegram/webhook'',
      webhookSecret = Some ''834e9a76b21c50196ae3530e9fe73c79edb880a1b9dd412ca94e612c711ba6f0'',
      webhookPath = Some ''/api/telegram/webhook''\<rparr>"

definition world_of :: "wstate \<Rightarrow> world" where
  "world_of st = \<lparr>state_file = Some st, config = webhook_config, config_tmp = None, trace = []\<rparr>"

definition wd_state :: "string \<Rightarrow> int \<Rightarrow> wstate" where
  "wd_state m n = \<lparr>mode = m, failureCount = n, lastCheck = 0, lastSwitch = 0\<rparr>"

text \<open>A host whose every delivery fails, and one whose every delivery succeeds.\<close>

definition unreachable_host :: host where
  "unreachable_host = \<lparr>js_Number = (\<lambda>v. v), fetch_ok = (\<lambda>c. False)\<rparr>"


definition default_settings :: settings where
  "default_settings = \<lparr>workflowEndpoint = DEFAULT_WORKFLOW_ENDPOINT,
                        messagesEndpoint = DEFAULT_MESSAGES_ENDPOINT,
                        timeoutMs = DEFAULT_TIMEOUT_MS\<rparr>"



definition reply_event :: "jsstring \<Rightarrow> jsval" where
  "reply_event text =
     JObj [(''metadata'', JObj [(''recipientId'', JStr (lit ''167090545''))]), (''content'', JStr text)]"

text \<open>An \<^verbatim>\<open>exec\<close> tool call with the given result object and command.\<close>

definition exec_event :: "(string \<times> jsval) list \<Rightarrow> jsstring \<Rightarrow> jsval" where
  "exec_event res cmd =
     JObj [(''toolName'', JStr (lit ''exec'')), (''result'', JObj res),
           (''params'', JObj [(''command'', JStr cmd)])]"

section \<open>Properties of the watchdog\<close>

lemmas wd_defs = main_def init_state_def read_state_def update_state_def log_sh_def
  switch_to_polling_def switch_to_webhook_def rewrite_config_def restart_gateway_def
  FAILURE_THRESHOLD_def Let_def

lemma bash_int_id: "- (2 ^ 63) \<le> n \<Longrightarrow> n < 2 ^ 63 \<Longrightarrow> bash_int n = n"
  unfolding bash_int_def by (simp add: mod_pos_pos_trivial)

lemma bash_int_0 [simp]: "bash_int 0 = 0"
  by (simp add: bash_int_def)

lemma bash_int_1 [simp]: "bash_int 1 = 1"
  by (simp add: bash_int_def)

lemma bash_int_2 [simp]: "bash_int 2 = 2"
  by (simp add: bash_int_def)

text \<open>\<open>init_state\<close> leaves a state file behind, so \<open>main\<close> always reads one.\<close>

lemma init_state_present: "state_file (init_state w) \<noteq> None"
  by (simp add: init_state_def)

text \<open>
  Claim C2, as amended. Every effect of a run that touches the state file is a shell
  redirection onto the state file itself; whenever a run changes the state file it has
  performed such a redirection; and the only rename a run ever performs moves the
  temporary copy of the channel configuration over the configuration file. So the state
  file is overwritten in place, never replaced by a rename.
\<close>

theorem state_file_overwritten_in_place:
  "(\<forall>x \<in> set (run_effects e w). touches STATE_FILE x \<longrightarrow> x = Redirect STATE_FILE)
   \<and> (state_file (main e w) \<noteq> state_file w \<longrightarrow> Redirect STATE_FILE \<in> set (run_effects e w))
   \<and> (\<forall>x \<in> set (run_effects e w). \<forall>a b. x = Mv a b \<longrightarrow> a = OPENCLAW_CONFIG_tmp \<and> b = OPENCLAW_CONFIG)"
  by (auto simp add: wd_defs run_effects_def split: option.splits if_splits)

theorem state_file_overwritten_in_place_witness:
  "state_file (main down_env (world_of (wd_state ''webhook'' 1))) \<noteq> state_file (world_of (wd_state ''webhook'' 1))
   \<and> Redirect STATE_FILE \<in> set (run_effects down_env (world_of (wd_state ''webhook'' 1)))
   \<and> Mv OPENCLAW_CONFIG_tmp OPENCLAW_CONFIG \<in> set (run_effects down_env (world_of (wd_state ''webhook'' 1)))"
proof -
  have changed: "state_file (main down_env (world_of (wd_state ''webhook'' 1)))
                   \<noteq> state_file (world_of (wd_state ''webhook'' 1))"
    by (simp add: wd_defs down_env_def world_of_def wd_state_def)
  have moved: "Mv OPENCLAW_CONFIG_tmp OPENCLAW_CONFIG
                 \<in> set (run_effects down_env (world_of (wd_state ''webhook'' 1)))"
    by (simp add: wd_defs run_effects_def down_env_def world_of_def wd_state_def)
  show ?thesis
    using changed moved state_file_overwritten_in_place [of down_env "world_of (wd_state ''webhook'' 1)"]
    by blast
qed

text \<open>
  Claim C2 as it is stated fails: in a run that observes the proxy down from
  \<open>{mode: webhook, failureCount: 0}\<close>, the one effect on the state file is a redirection
  onto the file itself. No temporary file is written for it and nothing is renamed onto it.
\<close>

theorem state_update_is_direct_redirect:
  "filter (touches STATE_FILE) (run_effects down_env (world_of (wd_state ''webhook'' 0)))
     = [Redirect STATE_FILE]"
  by (simp add: wd_defs run_effects_def down_env_def world_of_def wd_state_def)

text \<open>
  Claim C3. From \<open>{mode: webhook, failureCount: 0}\<close>, a run that sees the reverse proxy
  down persists \<open>failureCount = 1\<close>, switches nothing and leaves the channel configuration
  alone; a second such run right after it persists mode \<open>polling\<close> with \<open>failureCount = 0\<close>
  and \<open>lastSwitch\<close> set to that run's \<open>now\<close>, and the two runs together perform exactly one
  switch.
\<close>

theorem two_proxy_down_runs_switch_once:
  assumes "state_file w = Some \<lparr>mode = ''webhook'', failureCount = 0, lastCheck = lc, lastSwitch = ls\<rparr>"
    and "\<not> nginx_ok e1" and "\<not> nginx_ok e2"
  shows "state_file (main e1 w)
           = Some \<lparr>mode = ''webhook'', failureCount = 1, lastCheck = lc, lastSwitch = ls\<rparr>
       \<and> switches (run_effects e1 w) = 0
       \<and> config (main e1 w) = config w
       \<and> state_file (main e2 (main e1 w))
           = Some \<lparr>mode = ''polling'', failureCount = 0, lastCheck = lc, lastSwitch = now e2\<rparr>
       \<and> switches (run_effects e1 w) + switches (run_effects e2 (main e1 w)) = 1"
  using assms by (simp add: wd_defs switches_def run_effects_def)

theorem two_proxy_down_runs_switch_once_witness:
  "state_file (main down_env (world_of (wd_state ''webhook'' 0)))
     = Some \<lparr>mode = ''webhook'', failureCount = 1, lastCheck = 0, lastSwitch = 0\<rparr>
   \<and> state_file (main down_env (main down_env (world_of (wd_state ''webhook'' 0))))
     = Some \<lparr>mode = ''polling'', failureCount = 0, lastCheck = 0, lastSwitch = 1700000000\<rparr>
   \<and> switches (run_effects down_env (world_of (wd_state ''webhook'' 0)))
       + switches (run_effects down_env (main down_env (world_of (wd_state ''webhook'' 0)))) = 1"
proof -
  have start: "state_file (world_of (wd_state ''webhook'' 0))
                 = Some \<lparr>mode = ''webhook'', failureCount = 0, lastCheck = 0, lastSwitch = 0\<rparr>"
    by (simp add: world_of_def wd_state_def)
  have down: "\<not> nginx_ok down_env"
    by (simp add: down_env_def)
  have stamp: "now down_env = 1700000000"
    by (simp add: down_env_def)
  show ?thesis
    using two_proxy_down_runs_switch_once [OF start down down] stamp by simp
qed

text \<open>
  What one run does to the state file in polling mode (any mode other than \<open>webhook\<close>)
  when a required service is down: it resets the count if the shell reads it as positive
  and writes nothing otherwise.
\<close>

lemma polling_adverse_step:
  assumes "state_file w = Some st" and "mode st \<noteq> ''webhook''"
    and "\<not> (nginx_ok e \<and> cf_ok e \<and> openclaw_ok e)"
  shows "state_file (main e w)
           = Some (if bash_int (failureCount st) > 0 then st\<lparr>failureCount := 0\<rparr> else st)"
    and "switches (run_effects e w) = 0"
    and "config (main e w) = config w"
  using assms by (auto simp add: wd_defs switches_def run_effects_def)

lemma polling_adverse_reset:
  assumes "state_file w = Some st" and "mode st \<noteq> ''webhook''"
    and "\<not> (nginx_ok e \<and> cf_ok e \<and> openclaw_ok e)"
    and "0 \<le> failureCount st" and "failureCount st < 2 ^ 63"
  shows "state_file (main e w) = Some (st\<lparr>failureCount := 0\<rparr>)"
proof -
  have "bash_int (failureCount st) = failureCount st"
    using assms(4,5) by (intro bash_int_id) auto
  with polling_adverse_step(1) [OF assms(1-3)] assms(4) show ?thesis
    by (cases "failureCount st = 0") auto
qed

lemma polling_adverse_repeat:
  assumes "state_file w = Some st" and "mode st \<noteq> ''webhook''"
    and "\<not> (nginx_ok e \<and> cf_ok e \<and> openclaw_ok e)"
    and "0 \<le> failureCount st" and "failureCount st < 2 ^ 63"
  shows "state_file ((main e ^^ Suc n) w) = Some (st\<lparr>failureCount := 0\<rparr>)"
proof (induction n)
  case 0
  show ?case using polling_adverse_reset [OF assms] by simp
next
  case (Suc n)
  have "state_file (main e ((main e ^^ Suc n) w))
          = Some ((st\<lparr>failureCount := 0\<rparr>)\<lparr>failureCount := 0\<rparr>)"
    by (rule polling_adverse_reset [OF Suc.IH]) (use assms in auto)
  then show ?case by simp
qed

lemma polling_adverse_twice:
  assumes "state_file w = Some st" and "mode st \<noteq> ''webhook''"
    and "\<not> (nginx_ok e \<and> cf_ok e \<and> openclaw_ok e)"
  shows "state_file (main e (main e w)) = state_file (main e w)"
proof -
  let ?st' = "if bash_int (failureCount st) > 0 then st\<lparr>failureCount := 0\<rparr> else st"
  have one: "state_file (main e w) = Some ?st'"
    by (rule polling_adverse_step(1) [OF assms])
  have m: "mode ?st' \<noteq> ''webhook''"
    using assms(2) by simp
  have "state_file (main e (main e w))
          = Some (if bash_int (failureCount ?st') > 0 then ?st'\<lparr>failureCount := 0\<rparr> else ?st')"
    by (rule polling_adverse_step(1) [OF one m assms(3)])
  with one show ?thesis by simp
qed

text \<open>
  Claim C9, as amended. In mode \<open>polling\<close>, a run in which the proxy, the tunnel or the
  gateway is down performs no switch, leaves the channel configuration alone and stays
  in mode \<open>polling\<close>; running the same snapshot twice persists the same state as running
  it once. When the stored count is at least 0 and below \<open>2^63\<close>, the persisted state after
  one run, and after any number of further runs of the same snapshot, is the old one with
  \<open>failureCount = 0\<close>: the count is never incremented.
\<close>

theorem polling_adverse_check_idempotent:
  assumes "state_file w = Some st" and "mode st = ''polling''"
    and "\<not> (nginx_ok e \<and> cf_ok e \<and> openclaw_ok e)"
  shows "switches (run_effects e w) = 0
       \<and> config (main e w) = config w
       \<and> map_option mode (state_file (main e w)) = Some ''polling''
       \<and> state_file (main e (main e w)) = state_file (main e w)
       \<and> (0 \<le> failureCount st \<and> failureCount st < 2 ^ 63 \<longrightarrow>
            state_file (main e w) = Some (st\<lparr>failureCount := 0\<rparr>)
            \<and> (\<forall>n. state_file ((main e ^^ Suc n) w) = Some (st\<lparr>failureCount := 0\<rparr>)))"
proof -
  from assms(2) have m: "mode st \<noteq> ''webhook''" by simp
  have "switches (run_effects e w) = 0"
    by (rule polling_adverse_step(2) [OF assms(1) m assms(3)])
  moreover have "config (main e w) = config w"
    by (rule polling_adverse_step(3) [OF assms(1) m assms(3)])
  moreover have "map_option mode (state_file (main e w)) = Some ''polling''"
    using polling_adverse_step(1) [OF assms(1) m assms(3)] assms(2) by simp
  moreover have "state_file (main e (main e w)) = state_file (main e w)"
    by (rule polling_adverse_twice [OF assms(1) m assms(3)])
  moreover have "state_file (main e w) = Some (st\<lparr>failureCount := 0\<rparr>)
      \<and> (\<forall>n. state_file ((main e ^^ Suc n) w) = Some (st\<lparr>failureCount := 0\<rparr>))"
    if range: "0 \<le> failureCount st \<and> failureCount st < 2 ^ 63"
  proof -
    from range have lo: "0 \<le> failureCount st" and hi: "failureCount st < 2 ^ 63"
      by simp_all
    have "state_file (main e w) = Some (st\<lparr>failureCount := 0\<rparr>)"
      by (rule polling_adverse_reset [OF assms(1) m assms(3) lo hi])
    moreover have "\<forall>n. state_file ((main e ^^ Suc n) w) = Some (st\<lparr>failureCount := 0\<rparr>)"
      using polling_adverse_repeat [OF assms(1) m assms(3) lo hi] by blast
    ultimately show ?thesis by blast
  qed
  ultimately show ?thesis by blast
qed

theorem polling_adverse_check_idempotent_witness:
  "state_file (main down_env (world_of (wd_state ''polling'' 1))) = Some (wd_state ''polling'' 0)
   \<and> state_file ((main down_env ^^ 3) (world_of (wd_state ''polling'' 1))) = Some (wd_state ''polling'' 0)
   \<and> switches (run_effects down_env (world_of (wd_state ''polling'' 1))) = 0"
proof -
  have start: "state_file (world_of (wd_state ''polling'' 1)) = Some (wd_state ''polling'' 1)"
    by (simp add: world_of_def)
  have polling: "mode (wd_state ''polling'' 1) = ''polling''"
    by (simp add: wd_state_def)
  have down: "\<not> (nginx_ok down_env \<and> cf_ok down_env \<and> openclaw_ok down_env)"
    by (simp add: down_env_def)
  have range: "0 \<le> failureCount (wd_state ''polling'' 1) \<and> failureCount (wd_state ''polling'' 1) < 2 ^ 63"
    by (simp add: wd_state_def)
  have reset: "(wd_state ''polling'' 1)\<lparr>failureCount := 0\<rparr> = wd_state ''polling'' 0"
    by (simp add: wd_state_def)
  have three: "(3::nat) = Suc 2"
    by simp
  show ?thesis
    using polling_adverse_check_idempotent [OF start polling down] range reset
    unfolding three by metis
qed

text \<open>
  Claim C9 as it is stated fails for a count the shell cannot hold. With the stored
  count \<open>2^63\<close> in mode \<open>polling\<close> and the proxy down, the shell reads the count as
  negative, skips the reset, and the persisted count stays \<open>2^63\<close>, not 0.
\<close>

theorem polling_count_outside_shell_range:
  "state_file (main down_env (world_of (wd_state ''polling'' 9223372036854775808)))
     = Some (wd_state ''polling'' 9223372036854775808)
   \<and> failureCount (wd_state ''polling'' 9223372036854775808) = 9223372036854775808"
  by (simp add: wd_defs down_env_def world_of_def wd_state_def bash_int_def)

text \<open>
  Claim C10, as amended. Whatever the mode and the health results, if the stored count
  is at least 0 and below \<open>2^63 - 1\<close> (or the state file is absent), the run leaves a state
  file whose count is 0 or 1, hence below the threshold, and it is 0 whenever the run
  performed a switch.
\<close>

theorem failure_count_below_threshold:
  assumes "\<forall>st. state_file w = Some st \<longrightarrow> 0 \<le> failureCount st \<and> failureCount st < 2 ^ 63 - 1"
  shows "\<exists>st'. state_file (main e w) = Some st'
       \<and> (failureCount st' = 0 \<or> failureCount st' = 1)
       \<and> failureCount st' < FAILURE_THRESHOLD
       \<and> (switches (run_effects e w) \<noteq> 0 \<longrightarrow> failureCount st' = 0)"
proof (cases "state_file w")
  case None
  then show ?thesis
    by (auto simp add: wd_defs switches_def run_effects_def)
next
  case (Some st)
  with assms have r: "0 \<le> failureCount st" "failureCount st < 2 ^ 63 - 1"
    by auto
  then have b: "bash_int (failureCount st) = failureCount st"
    "bash_int (failureCount st + 1) = failureCount st + 1"
    by (auto intro!: bash_int_id)
  from Some r b show ?thesis
    by (auto simp add: wd_defs switches_def run_effects_def)
qed

theorem failure_count_below_threshold_witness:
  "map_option failureCount (state_file (main down_env (world_of (wd_state ''webhook'' 1)))) = Some 0
   \<and> switches (run_effects down_env (world_of (wd_state ''webhook'' 1))) = 1"
proof -
  have range: "\<forall>st. state_file (world_of (wd_state ''webhook'' 1)) = Some st
                 \<longrightarrow> 0 \<le> failureCount st \<and> failureCount st < 2 ^ 63 - 1"
    by (simp add: world_of_def wd_state_def)
  have sw: "switches (run_effects down_env (world_of (wd_state ''webhook'' 1))) = 1"
    by (simp add: wd_defs switches_def run_effects_def down_env_def world_of_def wd_state_def)
  show ?thesis
    using failure_count_below_threshold [OF range, of down_env] sw by auto
qed

text \<open>
  Claim C10 as it is stated fails for counts the shell cannot hold. With the stored
  count \<open>2^63\<close> in mode \<open>webhook\<close> and every service up, the shell reads the count as
  negative, skips the reset, and the count stays \<open>2^63\<close>, which is not below the
  threshold. With the stored count \<open>2^63 - 1\<close> and the proxy down, the increment wraps
  and the persisted count is \<open>- 2^63\<close>, which is neither 0 nor 1.
\<close>

theorem failure_count_outside_shell_range:
  "map_option failureCount
     (state_file (main up_env (world_of (wd_state ''webhook'' 9223372036854775808))))
     = Some 9223372036854775808
   \<and> map_option failureCount
       (state_file (main down_env (world_of (wd_state ''webhook'' 9223372036854775807))))
     = Some (- 9223372036854775808)"
  by (simp add: wd_defs up_env_def down_env_def world_of_def wd_state_def bash_int_def)


section \<open>Properties of the notifier\<close>

lemma slice200_or_JStr [simp]: "slice200_or (JStr s) d = JStr (take 200 s)"
  by (simp add: slice200_or_def slice0_def)

lemma content_of_JStr:
  assumes "content_of event = JStr s" and "s \<noteq> []"
  shows "get_prop event ''content'' = JStr s"
  using assms by (auto simp add: content_of_def js_or_def split: if_splits)


lemma messageId_field_throws:
  assumes "has_own m ''toString''"
  shows "messageId_field h m = Inl TypeError"
  using assms by (cases m) (simp_all add: messageId_field_def to_Number_def)

text \<open>
  What the first hook does when \<^verbatim>\<open>Number(messageId)\<close> throws: the feed call has been
  issued, the workflow call has not, and the hook ends with the error.
\<close>

lemma message_received_throws_after_feed:
  assumes "js_String (senderId_of event) = Inr sid" and "sid \<in> set BOSS_SENDER_IDS"
    and "content_of event = JStr s" and "s \<noteq> []"
    and "has_own (messageId_of event) ''toString''"
  shows "message_received h cfg event =
           ([postJson (messagesEndpoint cfg)
               [(''message'', JStr s), (''from'', JStr (lit ''Boss'')), (''type'', JStr (lit ''received''))]
               (timeoutMs cfg)],
            Some TypeError)"
  using assms messageId_field_throws [OF assms(5), of h]
  by (simp add: message_received_def Let_def)







text \<open>
  Claim C5. Whenever the content of a sent message is a string that
  \<open>isHarmlessExecMessage\<close> accepts, the hook issues no call and throws nothing, whatever
  the rest of the event (the recipient included); the content
  \<^verbatim>\<open>Command exited with code 1 (grep)\<close> is such a string.
\<close>

theorem message_sent_suppresses_harmless:
  "(sent_content_of event = JStr s \<and> isHarmlessExecMessage s \<longrightarrow> message_sent h cfg event = Inr [])
   \<and> (sent_content_of event = JStr (lit ''Command exited with code 1 (grep)'')
        \<longrightarrow> message_sent h cfg event = Inr [])"
proof -
  have grep: "isHarmlessExecMessage (lit ''Command exited with code 1 (grep)'')"
    by code_simp
  have general: "\<And>t. sent_content_of event = JStr t \<Longrightarrow> isHarmlessExecMessage t
                   \<Longrightarrow> message_sent h cfg event = Inr []"
    by (simp add: message_sent_def Let_def)
  from grep general show ?thesis by blast
qed

theorem message_sent_suppresses_harmless_witness:
  "sent_content_of (reply_event (lit ''Command exited with code 1 (grep)''))
     = JStr (lit ''Command exited with code 1 (grep)'')
   \<and> message_sent unreachable_host default_settings
       (reply_event (lit ''Command exited with code 1 (grep)'')) = Inr []"
proof -
  have content: "sent_content_of (reply_event (lit ''Command exited with code 1 (grep)''))
                   = JStr (lit ''Command exited with code 1 (grep)'')"
    by (simp add: sent_content_of_def reply_event_def js_or_def lit_def)
  show ?thesis
    using content
      message_sent_suppresses_harmless
        [of "reply_event (lit ''Command exited with code 1 (grep)'')" "[]"
            unreachable_host default_settings]
    by blast
qed

text \<open>
  Claim C6. If \<open>toolName\<close> is not \<^verbatim>\<open>exec\<close> the hook does nothing. \<open>exitCode\<close> is the
  result's \<open>exitCode\<close> when that is a number, else 1 when \<open>status\<close> is \<^verbatim>\<open>error\<close>, else 0. And
  for an \<^verbatim>\<open>exec\<close> call with \<open>exitCode = 0\<close> and a \<open>status\<close> other than \<^verbatim>\<open>error\<close> the hook
  issues no call.
\<close>

theorem after_tool_call_exit_code:
  "(toolName_of event \<noteq> JStr (lit ''exec'') \<longrightarrow> after_tool_call h cfg event = Inr [])
   \<and> (get_prop (result_of event) ''exitCode'' = JNum n \<longrightarrow> exitCode_of event = n)
   \<and> (\<not> is_number (get_prop (result_of event) ''exitCode'') \<and> status_of event = JStr (lit ''error'')
        \<longrightarrow> exitCode_of event = 1)
   \<and> (\<not> is_number (get_prop (result_of event) ''exitCode'') \<and> status_of event \<noteq> JStr (lit ''error'')
        \<longrightarrow> exitCode_of event = 0)
   \<and> (exitCode_of event = 0 \<and> status_of event \<noteq> JStr (lit ''error'')
        \<longrightarrow> after_tool_call h cfg event = Inr [])"
proof (intro conjI impI)
  assume "toolName_of event \<noteq> JStr (lit ''exec'')"
  then show "after_tool_call h cfg event = Inr []"
    by (simp add: after_tool_call_def)
next
  assume "get_prop (result_of event) ''exitCode'' = JNum n"
  then show "exitCode_of event = n"
    by (simp add: exitCode_of_def)
next
  assume "\<not> is_number (get_prop (result_of event) ''exitCode'') \<and> status_of event = JStr (lit ''error'')"
  then show "exitCode_of event = 1"
    by (cases "get_prop (result_of event) ''exitCode''") (simp_all add: exitCode_of_def)
next
  assume "\<not> is_number (get_prop (result_of event) ''exitCode'') \<and> status_of event \<noteq> JStr (lit ''error'')"
  then show "exitCode_of event = 0"
    by (cases "get_prop (result_of event) ''exitCode''") (simp_all add: exitCode_of_def)
next
  assume "exitCode_of event = 0 \<and> status_of event \<noteq> JStr (lit ''error'')"
  then show "after_tool_call h cfg event = Inr []"
    by (simp add: after_tool_call_def Let_def)
qed

theorem after_tool_call_exit_code_witness:
  "after_tool_call unreachable_host default_settings (JObj [(''toolName'', JStr (lit ''read''))]) = Inr []
   \<and> exitCode_of (exec_event [(''exitCode'', JNum 2)] (lit ''make'')) = 2
   \<and> exitCode_of (exec_event [(''status'', JStr (lit ''error''))] (lit ''make'')) = 1
   \<and> exitCode_of (exec_event [(''status'', JStr (lit ''completed''))] (lit ''make'')) = 0
   \<and> after_tool_call unreachable_host default_settings
       (exec_event [(''status'', JStr (lit ''completed''))] (lit ''make'')) = Inr []"
proof -
  let ?read = "JObj [(''toolName'', JStr (lit ''read''))]"
  let ?two = "exec_event [(''exitCode'', JNum 2)] (lit ''make'')"
  let ?err = "exec_event [(''status'', JStr (lit ''error''))] (lit ''make'')"
  let ?fine = "exec_event [(''status'', JStr (lit ''completed''))] (lit ''make'')"
  have other: "toolName_of ?read \<noteq> JStr (lit ''exec'')"
    by code_simp
  have two: "get_prop (result_of ?two) ''exitCode'' = JNum 2"
    by code_simp
  have err: "\<not> is_number (get_prop (result_of ?err) ''exitCode'') \<and> status_of ?err = JStr (lit ''error'')"
    by code_simp
  have fine: "\<not> is_number (get_prop (result_of ?fine) ''exitCode'') \<and> status_of ?fine \<noteq> JStr (lit ''error'')"
    by code_simp
  note t1 = after_tool_call_exit_code [of ?read unreachable_host default_settings 0,
      THEN conjunct1, THEN mp, OF other]
  note t2 = after_tool_call_exit_code [of ?two unreachable_host default_settings 2,
      THEN conjunct2, THEN conjunct1, THEN mp, OF two]
  note t3 = after_tool_call_exit_code [of ?err unreachable_host default_settings 0,
      THEN conjunct2, THEN conjunct2, THEN conjunct1, THEN mp, OF err]
  note t4 = after_tool_call_exit_code [of ?fine unreachable_host default_settings 0,
      THEN conjunct2, THEN conjunct2, THEN conjunct2, THEN conjunct1, THEN mp, OF fine]
  note t5 = after_tool_call_exit_code [of ?fine unreachable_host default_settings 0,
      THEN conjunct2, THEN conjunct2, THEN conjunct2, THEN conjunct2, THEN mp,
      OF conjI [OF t4 conjunct2 [OF fine]]]
  show ?thesis
    by (intro conjI) (rule t1 t2 t3 t4 t5)+
qed

text \<open>Neither pattern of \<open>BENIGN_STDERR_PATTERNS\<close> matches the empty string.\<close>

lemma stderr_patterns_need_text: "list_ex (\<lambda>p. rx_test p []) BENIGN_STDERR_PATTERNS = False"
  by code_simp

text \<open>
  Claim C7. For an exit code above 1, \<open>isHarmlessExecFailure\<close> is true exactly when the
  command contains \<^verbatim>\<open>2>/dev/null\<close> or \<open>stderr\<close> is given and matches one of the two
  "no matches" patterns; so it is false unless one of these holds, and the list of benign
  commands plays no part.
\<close>

theorem harmless_failure_above_one:
  assumes "exitCode > 1"
  shows "isHarmlessExecFailure command exitCode stderr =
           (js_includes command (lit ''2>/dev/null'')
            \<or> (\<exists>err. stderr = Some err \<and> list_ex (\<lambda>p. rx_test p err) BENIGN_STDERR_PATTERNS))"
  using assms stderr_patterns_need_text
  by (cases stderr) (auto simp add: isHarmlessExecFailure_def)

theorem harmless_failure_above_one_witness:
  "isHarmlessExecFailure (lit ''grep foo bar.txt'') 2 None = False
   \<and> isHarmlessExecFailure (lit ''grep foo bar.txt'') 1 None = True"
proof -
  have above: "(2::int) > 1"
    by simp
  have plain: "js_includes (lit ''grep foo bar.txt'') (lit ''2>/dev/null'') = False"
    by code_simp
  have one: "isHarmlessExecFailure (lit ''grep foo bar.txt'') 1 None = True"
    by code_simp
  show ?thesis
    using harmless_failure_above_one [OF above, of "lit ''grep foo bar.txt''" None] plain one
    by simp
qed

text \<open>
  What the function does guarantee about codes above 1: it returns false when the
  number it extracts, from the first place where \<^verbatim>\<open>code\<close>, then colons or white space,
  then digits occur, exceeds 1. The two examples of claim C8 hold.
\<close>

lemma harmless_message_extracted_code:
  "extracted_exitCode content > 1 \<Longrightarrow> isHarmlessExecMessage content = False"
  by (simp add: isHarmlessExecMessage_def Let_def)

lemma harmless_message_examples:
  "isHarmlessExecMessage (lit ''Command exited with code 2'') = False
   \<and> isHarmlessExecMessage (lit ''grep exited with code 1'') = True"
  by code_simp

text \<open>
  Claim C8 at a failing input. The message ends with \<^verbatim>\<open>exited with code 2\<close>, so it
  reports an exit code above 1; but the number the function extracts is the 0 of the
  earlier \<^verbatim>\<open>exit code 0\<close>, the text contains \<^verbatim>\<open>ls\<close>, which is on the benign list, and the
  function returns true.
\<close>

theorem harmless_message_first_code_decides:
  "rx_test (Cat (word_i ''exited with code 2'') Eol)
     (lit ''ls: exit code 0; make exited with code 2'')
   \<and> extracted_exitCode (lit ''ls: exit code 0; make exited with code 2'') = 0
   \<and> isHarmlessExecMessage (lit ''ls: exit code 0; make exited with code 2'') = True"
  by code_simp

end
